theory Spec2Isabelle
  imports Main "HOL-Library.Word"
begin

section \<open>The AutoPaySystem contract\<close>

text \<open>
  A shallow embedding of the Solidity contract \<^verbatim>\<open>AutoPaySystem\<close>
  (source file \<^verbatim>\<open>src/unnamed/part_000\<close>). Storage is a record that
  every external function takes and returns; a \<^verbatim>\<open>require\<close> that
  fails, or a library call that reverts, is the value \<open>Inl (e, s)\<close>, where
  \<open>s\<close> is the storage as it stood at the moment of the revert (the EVM
  then discards it and keeps the storage of before the call, see \<open>transact\<close>).
\<close>

subsection \<open>Value types\<close>

type_synonym address = "160 word"
type_synonym uint256 = "256 word"
type_synonym uint32 = "32 word"
type_synonym bytes32 = "256 word"
type_synonym bytes = "8 word list"

text \<open>
  The library declares \<^verbatim>\<open>type euint32 is bytes32\<close> and
  \<^verbatim>\<open>type externalEuint32 is bytes32\<close>: a handle is a 32-byte word.
  A Solidity \<^verbatim>\<open>string\<close> is a byte sequence, here a \<open>string\<close>;
  \<^verbatim>\<open>bytes(x).length\<close> is its \<open>length\<close>.
\<close>

type_synonym euint32 = bytes32
type_synonym externalEuint32 = bytes32

subsection \<open>Structs, events and storage\<close>

record PaymentRule =
  ruleId :: string
  encryptedThreshold :: euint32
  publicThreshold :: uint256
  recipient :: address
  description :: string
  creator :: address
  timestamp :: uint256
  isActive :: bool

text \<open>
  The struct \<^verbatim>\<open>Subscription\<close> has fields named \<^verbatim>\<open>ruleId\<close>
  and \<^verbatim>\<open>isActive\<close> as well; here they are \<open>subRuleId\<close> and
  \<open>subIsActive\<close>, since a record field name is a constant of the theory.
\<close>

record Subscription =
  subscriptionId :: string
  subRuleId :: string
  subscriber :: address
  lastPaymentTimestamp :: uint256
  subIsActive :: bool

datatype event =
    PaymentRuleCreated string address
  | SubscriptionCreated string string address
  | PaymentExecuted string string address

text \<open>
  A Solidity mapping is total: a key never written reads as the zero value of the
  value type. The three mappings are therefore functions, and \<open>zeroRule\<close>,
  \<open>zeroSubscription\<close> and \<open>[]\<close> are what an unwritten key holds.
  The dynamic arrays are lists, \<^verbatim>\<open>push\<close> appends at the end.
  \<open>events\<close> is the log of the events emitted so far, oldest first.
  \<open>allowedThis\<close> and \<open>publiclyDecryptable\<close> are the two access-control
  facts the contract records about a handle through the library.
\<close>

record AutoPaySystem =
  paymentRules :: "string \<Rightarrow> PaymentRule"
  subscriptions :: "string \<Rightarrow> Subscription"
  ruleSubscriptions :: "string \<Rightarrow> string list"
  ruleIds :: "string list"
  subscriptionIds :: "string list"
  events :: "event list"
  allowedThis :: "euint32 set"
  publiclyDecryptable :: "euint32 set"

definition zeroRule :: PaymentRule where
  "zeroRule = \<lparr>ruleId = [], encryptedThreshold = 0, publicThreshold = 0, recipient = 0,
     description = [], creator = 0, timestamp = 0, isActive = False\<rparr>"

definition zeroSubscription :: Subscription where
  "zeroSubscription = \<lparr>subscriptionId = [], subRuleId = [], subscriber = 0,
     lastPaymentTimestamp = 0, subIsActive = False\<rparr>"

text \<open>The storage after the constructor, which writes nothing.\<close>

definition initial :: AutoPaySystem where
  "initial = \<lparr>paymentRules = (\<lambda>_. zeroRule), subscriptions = (\<lambda>_. zeroSubscription),
     ruleSubscriptions = (\<lambda>_. []), ruleIds = [], subscriptionIds = [], events = [],
     allowedThis = {}, publiclyDecryptable = {}\<rparr>"

subsection \<open>The transaction environment and the encryption library\<close>

record env =
  msg_sender :: address
  block_timestamp :: uint256

text \<open>
  The library \<^verbatim>\<open>@fhevm/solidity/lib/FHE.sol\<close> is an external collaborator
  and not part of the repository. Its four functions whose results the contract
  branches on are parameters of the model:
  \<^item> \<open>fromExternal\<close>: \<open>None\<close> when the import reverts, else the handle;
  \<^item> \<open>isInitialized\<close>;
  \<^item> \<open>toBytes32\<close>;
  \<^item> \<open>checkSignatures\<close>: \<open>False\<close> when the verification reverts.
\<close>

record FHE =
  fromExternal :: "externalEuint32 \<Rightarrow> bytes \<Rightarrow> euint32 option"
  isInitialized :: "euint32 \<Rightarrow> bool"
  toBytes32 :: "euint32 \<Rightarrow> bytes32"
  checkSignatures :: "bytes32 list \<Rightarrow> bytes \<Rightarrow> bytes \<Rightarrow> bool"

text \<open>
  Modelled from the spec: \<^verbatim>\<open>FHE.allowThis\<close> and
  \<^verbatim>\<open>FHE.makePubliclyDecryptable\<close> are library code absent from the
  sources. The spec says the first "authorizes the registry itself to operate on the
  handle" and the second "marks the handle publicly decryptable"; both are recorded as
  a fact about the handle and neither reverts on a handle the import has accepted.
\<close>

definition allowThis :: "euint32 \<Rightarrow> AutoPaySystem \<Rightarrow> AutoPaySystem" where
  "allowThis h s = s\<lparr>allowedThis := insert h (allowedThis s)\<rparr>"

definition makePubliclyDecryptable :: "euint32 \<Rightarrow> AutoPaySystem \<Rightarrow> AutoPaySystem" where
  "makePubliclyDecryptable h s = s\<lparr>publiclyDecryptable := insert h (publiclyDecryptable s)\<rparr>"

definition emit :: "event \<Rightarrow> AutoPaySystem \<Rightarrow> AutoPaySystem" where
  "emit e s = s\<lparr>events := events s @ [e]\<rparr>"

subsection \<open>Errors\<close>

text \<open>
  The contract reverts with a message; the error names are those of the specification:
  \<^item> \<open>DuplicateId\<close>: "Rule already exists", "Subscription already exists";
  \<^item> \<open>NotFound\<close>: "Rule does not exist", "Subscription does not exist";
  \<^item> \<open>InactiveEntity\<close>: "Rule is not active", "Subscription is not active";
  \<^item> \<open>Unauthorized\<close>: "Only creator can disable rule",
    "Only subscriber can disable subscription";
  \<^item> \<open>InvalidCiphertext\<close>: "Invalid encrypted input", or a revert inside
    \<^verbatim>\<open>FHE.fromExternal\<close>;
  \<^item> \<open>InvalidProof\<close>: a revert inside \<^verbatim>\<open>FHE.checkSignatures\<close>;
  \<^item> \<open>ThresholdNotMet\<close>: "Threshold not met";
  \<^item> \<open>AbiDecodeError\<close>: the revert of \<^verbatim>\<open>abi.decode\<close> on bytes that
    do not encode a \<^verbatim>\<open>uint32\<close>.
\<close>

datatype error =
    DuplicateId
  | NotFound
  | Unauthorized
  | InactiveEntity
  | InvalidCiphertext
  | InvalidProof
  | ThresholdNotMet
  | AbiDecodeError

type_synonym result = "(error \<times> AutoPaySystem) + AutoPaySystem"

subsection \<open>Decoding the clear value\<close>

text \<open>
  \<^verbatim>\<open>abi.decode(data, (uint32))\<close> reads the first 32 bytes of the data as a
  big-endian number and reverts when there are fewer than 32 bytes or when the number
  does not fit 32 bits.
\<close>

definition be_nat :: "bytes \<Rightarrow> nat" where
  "be_nat bs = foldl (\<lambda>acc b. acc * 256 + unat b) 0 bs"

definition abi_decode_uint32 :: "bytes \<Rightarrow> uint32 option" where
  "abi_decode_uint32 d =
     (if length d < 32 then None
      else if be_nat (take 32 d) < 2 ^ 32 then Some (of_nat (be_nat (take 32 d)))
      else None)"

subsection \<open>The external functions\<close>

definition createPaymentRule ::
  "FHE \<Rightarrow> env \<Rightarrow> string \<Rightarrow> externalEuint32 \<Rightarrow> bytes \<Rightarrow> uint256 \<Rightarrow> address \<Rightarrow> string
    \<Rightarrow> AutoPaySystem \<Rightarrow> result" where
  "createPaymentRule fhe e rid encThreshold inputProof pubThreshold recip descr s =
     (if length (ruleId (paymentRules s rid)) \<noteq> 0 then Inl (DuplicateId, s)
      else case fromExternal fhe encThreshold inputProof of
        None \<Rightarrow> Inl (InvalidCiphertext, s)
      | Some h \<Rightarrow>
          if \<not> isInitialized fhe h then Inl (InvalidCiphertext, s)
          else (case fromExternal fhe encThreshold inputProof of
            None \<Rightarrow> Inl (InvalidCiphertext, s)
          | Some h' \<Rightarrow>
              let s1 = s\<lparr>paymentRules := (paymentRules s)(rid :=
                         \<lparr>ruleId = rid, encryptedThreshold = h',
                          publicThreshold = pubThreshold, recipient = recip,
                          description = descr, creator = msg_sender e,
                          timestamp = block_timestamp e, isActive = True\<rparr>)\<rparr>;
                  s2 = allowThis (encryptedThreshold (paymentRules s1 rid)) s1;
                  s3 = makePubliclyDecryptable (encryptedThreshold (paymentRules s2 rid)) s2;
                  s4 = s3\<lparr>ruleIds := ruleIds s3 @ [rid]\<rparr>
              in Inr (emit (PaymentRuleCreated rid (msg_sender e)) s4)))"

definition createSubscription ::
  "env \<Rightarrow> string \<Rightarrow> string \<Rightarrow> address \<Rightarrow> AutoPaySystem \<Rightarrow> result" where
  "createSubscription e sid rid sub s =
     (if length (subscriptionId (subscriptions s sid)) \<noteq> 0 then Inl (DuplicateId, s)
      else if \<not> 0 < length (ruleId (paymentRules s rid)) then Inl (NotFound, s)
      else if \<not> isActive (paymentRules s rid) then Inl (InactiveEntity, s)
      else
        let s1 = s\<lparr>subscriptions := (subscriptions s)(sid :=
                   \<lparr>subscriptionId = sid, subRuleId = rid, subscriber = sub,
                    lastPaymentTimestamp = 0, subIsActive = True\<rparr>)\<rparr>;
            s2 = s1\<lparr>ruleSubscriptions := (ruleSubscriptions s1)(rid :=
                   ruleSubscriptions s1 rid @ [sid])\<rparr>;
            s3 = s2\<lparr>subscriptionIds := subscriptionIds s2 @ [sid]\<rparr>
        in Inr (emit (SubscriptionCreated sid rid sub) s3))"

text \<open>
  \<^verbatim>\<open>rule\<close> is a storage pointer: \<open>rk\<close> is the key it points at, and
  every read through it is a read of \<open>paymentRules\<close> at that key in the storage
  of the moment.
\<close>

definition executePayment ::
  "FHE \<Rightarrow> env \<Rightarrow> string \<Rightarrow> bytes \<Rightarrow> bytes \<Rightarrow> AutoPaySystem \<Rightarrow> result" where
  "executePayment fhe e sid abiEncodedClearValue decryptionProof s =
     (if \<not> 0 < length (subscriptionId (subscriptions s sid)) then Inl (NotFound, s)
      else if \<not> subIsActive (subscriptions s sid) then Inl (InactiveEntity, s)
      else
        let rk = subRuleId (subscriptions s sid) in
        if \<not> isActive (paymentRules s rk) then Inl (InactiveEntity, s)
        else
          let cts = [toBytes32 fhe (encryptedThreshold (paymentRules s rk))] in
          if \<not> checkSignatures fhe cts abiEncodedClearValue decryptionProof
          then Inl (InvalidProof, s)
          else (case abi_decode_uint32 abiEncodedClearValue of
            None \<Rightarrow> Inl (AbiDecodeError, s)
          | Some decodedValue \<Rightarrow>
              if \<not> publicThreshold (paymentRules s rk) \<le> ucast decodedValue
              then Inl (ThresholdNotMet, s)
              else
                let s1 = s\<lparr>subscriptions := (subscriptions s)(sid :=
                           (subscriptions s sid)\<lparr>lastPaymentTimestamp := block_timestamp e\<rparr>)\<rparr>
                in Inr (emit (PaymentExecuted sid (ruleId (paymentRules s1 rk))
                                (recipient (paymentRules s1 rk))) s1)))"

definition disableRule :: "env \<Rightarrow> string \<Rightarrow> AutoPaySystem \<Rightarrow> result" where
  "disableRule e rid s =
     (if \<not> 0 < length (ruleId (paymentRules s rid)) then Inl (NotFound, s)
      else if msg_sender e \<noteq> creator (paymentRules s rid) then Inl (Unauthorized, s)
      else Inr (s\<lparr>paymentRules := (paymentRules s)(rid :=
                  (paymentRules s rid)\<lparr>isActive := False\<rparr>)\<rparr>))"

definition disableSubscription :: "env \<Rightarrow> string \<Rightarrow> AutoPaySystem \<Rightarrow> result" where
  "disableSubscription e sid s =
     (if \<not> 0 < length (subscriptionId (subscriptions s sid)) then Inl (NotFound, s)
      else if msg_sender e \<noteq> subscriber (subscriptions s sid) then Inl (Unauthorized, s)
      else Inr (s\<lparr>subscriptions := (subscriptions s)(sid :=
                  (subscriptions s sid)\<lparr>subIsActive := False\<rparr>)\<rparr>))"

subsection \<open>The view functions\<close>

definition getPaymentRule ::
  "string \<Rightarrow> AutoPaySystem
    \<Rightarrow> error + (string \<times> uint256 \<times> address \<times> string \<times> address \<times> uint256 \<times> bool)" where
  "getPaymentRule rid s =
     (if \<not> 0 < length (ruleId (paymentRules s rid)) then Inl NotFound
      else let rule = paymentRules s rid in
        Inr (ruleId rule, publicThreshold rule, recipient rule, description rule,
             creator rule, timestamp rule, isActive rule))"

definition getSubscription ::
  "string \<Rightarrow> AutoPaySystem \<Rightarrow> error + (string \<times> string \<times> address \<times> uint256 \<times> bool)" where
  "getSubscription sid s =
     (if \<not> 0 < length (subscriptionId (subscriptions s sid)) then Inl NotFound
      else let sub = subscriptions s sid in
        Inr (subscriptionId sub, subRuleId sub, subscriber sub,
             lastPaymentTimestamp sub, subIsActive sub))"

definition getRuleSubscriptions :: "string \<Rightarrow> AutoPaySystem \<Rightarrow> error + string list" where
  "getRuleSubscriptions rid s =
     (if \<not> 0 < length (ruleId (paymentRules s rid)) then Inl NotFound
      else Inr (ruleSubscriptions s rid))"

definition getAllRuleIds :: "AutoPaySystem \<Rightarrow> string list" where
  "getAllRuleIds s = ruleIds s"

definition getAllSubscriptionIds :: "AutoPaySystem \<Rightarrow> string list" where
  "getAllSubscriptionIds s = subscriptionIds s"

definition isAvailable :: bool where
  "isAvailable = True"

subsection \<open>Transactions\<close>

text \<open>
  A call of a state-changing function, with its arguments. A transaction that reverts
  leaves the storage of before the call; a sequence of transactions is applied in order.
\<close>

datatype call =
    CreatePaymentRule string externalEuint32 bytes uint256 address string
  | CreateSubscription string string address
  | ExecutePayment string bytes bytes
  | DisableRule string
  | DisableSubscription string

fun dispatch :: "FHE \<Rightarrow> env \<Rightarrow> call \<Rightarrow> AutoPaySystem \<Rightarrow> result" where
  "dispatch fhe e (CreatePaymentRule rid enc prf thr recip descr) s =
     createPaymentRule fhe e rid enc prf thr recip descr s"
| "dispatch fhe e (CreateSubscription sid rid sub) s = createSubscription e sid rid sub s"
| "dispatch fhe e (ExecutePayment sid clear prf) s = executePayment fhe e sid clear prf s"
| "dispatch fhe e (DisableRule rid) s = disableRule e rid s"
| "dispatch fhe e (DisableSubscription sid) s = disableSubscription e sid s"

definition transact :: "FHE \<Rightarrow> env \<times> call \<Rightarrow> AutoPaySystem \<Rightarrow> AutoPaySystem" where
  "transact fhe tx s = (case dispatch fhe (fst tx) (snd tx) s of Inl _ \<Rightarrow> s | Inr s' \<Rightarrow> s')"

definition run :: "FHE \<Rightarrow> (env \<times> call) list \<Rightarrow> AutoPaySystem \<Rightarrow> AutoPaySystem" where
  "run fhe txs s = foldl (\<lambda>st tx. transact fhe tx st) s txs"

subsection \<open>A concrete deployment\<close>

text \<open>
  A deterministic stand-in for the library, three callers and a few storages reached
  from \<open>initial\<close> by transactions; the closed theorems below are evaluated on them.
  The stand-in accepts an import when its proof is the single byte 1 and returns the
  external handle itself; a handle is initialised when it is not zero; a decryption
  proof verifies when it is the single byte 7.
\<close>

definition fhe0 :: FHE where
  "fhe0 = \<lparr>fromExternal = (\<lambda>h prf. if prf = [1] then Some h else None),
            isInitialized = (\<lambda>h. h \<noteq> 0),
            toBytes32 = (\<lambda>h. h),
            checkSignatures = (\<lambda>cts clear prf. prf = [7])\<rparr>"

definition envA :: env where
  "envA = \<lparr>msg_sender = 10, block_timestamp = 1000\<rparr>"

definition envB :: env where
  "envB = \<lparr>msg_sender = 11, block_timestamp = 2000\<rparr>"

definition envC :: env where
  "envC = \<lparr>msg_sender = 12, block_timestamp = 3000\<rparr>"

text \<open>The 32-byte encodings of 99 and of 100.\<close>

definition clear99 :: bytes where
  "clear99 = [0,0,0,0,0,0,0,0,0,0,0,0,0,0,0,0,0,0,0,0,0,0,0,0,0,0,0,0,0,0,0,99]"

definition clear100 :: bytes where
  "clear100 = [0,0,0,0,0,0,0,0,0,0,0,0,0,0,0,0,0,0,0,0,0,0,0,0,0,0,0,0,0,0,0,100]"

text \<open>
  \<open>state0\<close>: caller 10 has created rule \<^verbatim>\<open>r1\<close> with public threshold 100
  and recipient 20. \<open>state1\<close>: caller 11 has then subscribed account 11 to it as
  \<^verbatim>\<open>s1\<close>.
\<close>

definition state0 :: AutoPaySystem where
  "state0 = run fhe0 [(envA, CreatePaymentRule ''r1'' 5 [1] 100 20 ''rent'')] initial"

definition state1 :: AutoPaySystem where
  "state1 = run fhe0
     [(envA, CreatePaymentRule ''r1'' 5 [1] 100 20 ''rent''),
      (envB, CreateSubscription ''s1'' ''r1'' 11)] initial"

text \<open>Two creations under the empty identifier, by two callers.\<close>

definition emptyRuleA :: "env \<times> call" where
  "emptyRuleA = (envA, CreatePaymentRule [] 5 [1] 100 20 ''first'')"

definition emptyRuleB :: "env \<times> call" where
  "emptyRuleB = (envB, CreatePaymentRule [] 6 [1] 50 21 ''second'')"

definition emptySubA :: "env \<times> call" where
  "emptySubA = (envA, CreateSubscription [] ''r1'' 30)"

definition emptySubB :: "env \<times> call" where
  "emptySubB = (envB, CreateSubscription [] ''r1'' 31)"

text \<open>
  \<open>state1Off\<close>: the subscriber has disabled \<^verbatim>\<open>s1\<close>.
  \<open>state1RuleOff\<close>: instead, the creator has disabled \<^verbatim>\<open>r1\<close>.
\<close>

definition state1Off :: AutoPaySystem where
  "state1Off = transact fhe0 (envB, DisableSubscription ''s1'') state1"

definition state1RuleOff :: AutoPaySystem where
  "state1RuleOff = transact fhe0 (envA, DisableRule ''r1'') state1"

text \<open>
  The storages after one and after two creations of a rule under the empty identifier,
  after one and two creations of a subscription under the empty identifier, and after
  creating rule \<^verbatim>\<open>r1\<close> and then a rule under the empty identifier.
\<close>

definition stateE1 :: AutoPaySystem where
  "stateE1 = run fhe0 [emptyRuleA] initial"

definition stateE2 :: AutoPaySystem where
  "stateE2 = run fhe0 [emptyRuleA, emptyRuleB] initial"

definition stateS1 :: AutoPaySystem where
  "stateS1 = run fhe0 [emptySubA] state0"

definition stateS2 :: AutoPaySystem where
  "stateS2 = run fhe0 [emptySubA, emptySubB] state0"

definition stateMix :: AutoPaySystem where
  "stateMix = run fhe0 [emptyRuleB] state0"

text \<open>
  A fourth caller, account 30. \<open>stateS1RuleOff\<close>: from \<open>stateS1\<close> the creator has
  disabled \<^verbatim>\<open>r1\<close>.
\<close>

definition envD :: env where
  "envD = \<lparr>msg_sender = 30, block_timestamp = 4000\<rparr>"

definition stateS1RuleOff :: AutoPaySystem where
  "stateS1RuleOff = transact fhe0 (envA, DisableRule ''r1'') stateS1"

subsection \<open>Records and enumeration lists\<close>

text \<open>
  What the records stored under the identifiers and the two enumeration lists have to
  do with each other in a storage that transactions have produced: a listed identifier
  holds a record carrying it, an unlisted one a record carrying the empty identifier,
  and a listed record that is not active is not under the empty identifier.
\<close>

definition enumerated :: "AutoPaySystem \<Rightarrow> bool" where
  "enumerated s \<longleftrightarrow>
     (\<forall>rid. ruleId (paymentRules s rid) = (if rid \<in> set (ruleIds s) then rid else []))
     \<and> (\<forall>sid. subscriptionId (subscriptions s sid)
             = (if sid \<in> set (subscriptionIds s) then sid else []))
     \<and> (\<forall>rid. rid \<in> set (ruleIds s) \<and> \<not> isActive (paymentRules s rid) \<longrightarrow> rid \<noteq> [])
     \<and> (\<forall>sid. sid \<in> set (subscriptionIds s) \<and> \<not> subIsActive (subscriptions s sid)
            \<longrightarrow> sid \<noteq> [])"

section \<open>Properties\<close>

subsection \<open>Auxiliary facts\<close>

lemmas fixture_defs = fhe0_def envA_def envB_def envC_def state0_def state1_def
  disableRule_def disableSubscription_def
  run_def transact_def createPaymentRule_def createSubscription_def
  initial_def zeroRule_def zeroSubscription_def allowThis_def
  makePubliclyDecryptable_def emit_def Let_def

lemma unat_ucast_32_256: "unat (ucast (v :: 32 word) :: 256 word) = unat v"
proof -
  have "unat v < 2 ^ 32"
    using unsigned_less [of v, where ?'a = nat] by simp
  also have "(2::nat) ^ 32 \<le> 2 ^ 256"
    by (rule power_increasing) simp_all
  finally have "unat v < (2::nat) ^ 256" .
  then show ?thesis
    by (simp add: unsigned_ucast_eq take_bit_nat_eq_self_iff)
qed

lemma ucast_le_iff: "(p :: 256 word) \<le> ucast (v :: 32 word) \<longleftrightarrow> unat p \<le> unat v"
  by (simp add: word_le_nat_alt unat_ucast_32_256)

lemma decode_clear99: "abi_decode_uint32 clear99 = Some 99"
  by (simp add: abi_decode_uint32_def clear99_def be_nat_def)

lemma decode_clear100: "abi_decode_uint32 clear100 = Some 100"
  by (simp add: abi_decode_uint32_def clear100_def be_nat_def)

subsection \<open>Storages reached from the empty one\<close>

text \<open>
  In every storage reached from \<open>initial\<close> by transactions, the record stored under
  an identifier carries that identifier when it is in the enumeration list, and the
  empty one otherwise; and a listed record that is not active has a non-empty
  identifier. So the contract's existence test, a stored identifier of non-zero
  length, holds exactly of the identifiers that are listed, that is, were created,
  and are not empty.
\<close>

lemma enumerated_initial: "enumerated initial"
  by (simp add: enumerated_def initial_def zeroRule_def zeroSubscription_def)

lemma transact_enumerated:
  assumes "enumerated s"
  shows "enumerated (transact fhe tx s)"
proof (cases tx)
  case (Pair e c)
  show ?thesis
  proof (cases c)
    case (CreatePaymentRule rid' enc pf thr recip descr)
    with Pair assms show ?thesis
      by (auto simp: enumerated_def transact_def createPaymentRule_def Let_def emit_def
            allowThis_def makePubliclyDecryptable_def split: option.splits)
  next
    case (CreateSubscription sid' rid' sub)
    with Pair assms show ?thesis
      by (auto simp: enumerated_def transact_def createSubscription_def Let_def emit_def)
  next
    case (ExecutePayment sid' clear pf)
    with Pair assms show ?thesis
      by (auto simp: enumerated_def transact_def executePayment_def Let_def emit_def
            split: option.splits)
  next
    case (DisableRule rid')
    with Pair assms show ?thesis
      by (auto simp: enumerated_def transact_def disableRule_def)
  next
    case (DisableSubscription sid')
    with Pair assms show ?thesis
      by (auto simp: enumerated_def transact_def disableSubscription_def)
  qed
qed

lemma run_enumerated: "enumerated s \<Longrightarrow> enumerated (run fhe txs s)"
proof (induction txs arbitrary: s)
  case Nil
  then show ?case by (simp add: run_def)
next
  case (Cons tx txs)
  have "run fhe (tx # txs) s = run fhe txs (transact fhe tx s)"
    by (simp add: run_def)
  with Cons.IH [OF transact_enumerated [OF Cons.prems, of fhe tx]] show ?case
    by simp
qed

lemma reached_enumerated: "enumerated (run fhe txs initial)"
  by (rule run_enumerated [OF enumerated_initial])

lemma reached_rule_exists:
  "0 < length (ruleId (paymentRules (run fhe txs initial) rid))
     \<longleftrightarrow> rid \<in> set (ruleIds (run fhe txs initial)) \<and> rid \<noteq> []"
  using reached_enumerated [of fhe txs] by (simp add: enumerated_def)

lemma reached_subscription_exists:
  "0 < length (subscriptionId (subscriptions (run fhe txs initial) sid))
     \<longleftrightarrow> sid \<in> set (subscriptionIds (run fhe txs initial)) \<and> sid \<noteq> []"
  using reached_enumerated [of fhe txs] by (simp add: enumerated_def)

lemma reached_inactive_rule_named:
  "rid \<in> set (ruleIds (run fhe txs initial))
     \<Longrightarrow> \<not> isActive (paymentRules (run fhe txs initial) rid) \<Longrightarrow> rid \<noteq> []"
  using reached_enumerated [of fhe txs] by (auto simp: enumerated_def)

subsection \<open>The threshold decides the payment\<close>

text \<open>
  For every storage and every \<open>executePayment\<close> call on an active subscription whose
  stored identifier is not empty, of an active rule, with a proof that verifies and a
  clear value that decodes to \<open>v\<close>: if \<open>v\<close> is strictly less than the rule's
  \<open>publicThreshold\<close> the call fails \<open>ThresholdNotMet\<close> and the subscription's
  \<open>lastPaymentTimestamp\<close> is what it was; if \<open>v\<close> is greater than or equal to
  \<open>publicThreshold\<close> the call succeeds, \<open>lastPaymentTimestamp\<close> becomes the block
  timestamp of the transaction and the last event of the log is \<open>PaymentExecuted\<close>
  with the subscription's identifier, the rule's stored identifier and the rule's
  recipient. In a storage reached from the empty one these are the subscriptions
  created under a non-empty identifier (\<open>reached_subscription_exists\<close>).
\<close>

lemma executePayment_threshold:
  assumes "0 < length (subscriptionId (subscriptions s sid))"
    and "subIsActive (subscriptions s sid)"
    and "rule = paymentRules s (subRuleId (subscriptions s sid))"
    and "isActive rule"
    and "checkSignatures fhe [toBytes32 fhe (encryptedThreshold rule)] clear prf"
    and "abi_decode_uint32 clear = Some v"
  shows "(unat v < unat (publicThreshold rule) \<longrightarrow>
            executePayment fhe e sid clear prf s = Inl (ThresholdNotMet, s)
          \<and> lastPaymentTimestamp
                (subscriptions (transact fhe (e, ExecutePayment sid clear prf) s) sid)
              = lastPaymentTimestamp (subscriptions s sid))
       \<and> (unat (publicThreshold rule) \<le> unat v \<longrightarrow>
           (\<exists>s'. executePayment fhe e sid clear prf s = Inr s'
              \<and> lastPaymentTimestamp (subscriptions s' sid) = block_timestamp e
              \<and> last (events s') = PaymentExecuted sid (ruleId rule) (recipient rule)))"
  using assms by (auto simp: executePayment_def transact_def Let_def emit_def ucast_le_iff)

lemma executePayment_threshold_witness:
  "executePayment fhe0 envC ''s1'' clear99 [7] state1 = Inl (ThresholdNotMet, state1)
   \<and> lastPaymentTimestamp
        (subscriptions (transact fhe0 (envC, ExecutePayment ''s1'' clear99 [7]) state1) ''s1'') = 0
   \<and> (\<exists>s'. executePayment fhe0 envC ''s1'' clear100 [7] state1 = Inr s'
         \<and> lastPaymentTimestamp (subscriptions s' ''s1'') = 3000
         \<and> last (events s') = PaymentExecuted ''s1'' ''r1'' 20)"
proof -
  have sub: "subscriptions state1 ''s1'' = \<lparr>subscriptionId = ''s1'', subRuleId = ''r1'',
      subscriber = 11, lastPaymentTimestamp = 0, subIsActive = True\<rparr>"
    by (simp add: fixture_defs)
  have rule: "paymentRules state1 ''r1'' = \<lparr>ruleId = ''r1'', encryptedThreshold = 5,
      publicThreshold = 100, recipient = 20, description = ''rent'', creator = 10,
      timestamp = 1000, isActive = True\<rparr>"
    by (simp add: fixture_defs)
  have chk: "checkSignatures fhe0 cts clear [7]" for cts clear
    by (simp add: fhe0_def)
  have ts: "block_timestamp envC = 3000"
    by (simp add: envC_def)
  from executePayment_threshold
         [of state1 "''s1''" "paymentRules state1 ''r1''" fhe0 clear99 "[7]" 99 envC]
       executePayment_threshold
         [of state1 "''s1''" "paymentRules state1 ''r1''" fhe0 clear100 "[7]" 100 envC]
  show ?thesis
    by (simp add: sub rule chk ts decode_clear99 decode_clear100)
qed

text \<open>
  Claim C1 says that every \<open>executePayment\<close> call on an existing, active subscription
  of an active rule, with a proof that verifies, succeeds when the decoded value is
  greater than or equal to the rule's \<open>publicThreshold\<close>, sets \<open>lastPaymentTimestamp\<close>
  and emits \<open>PaymentExecuted\<close>. For the subscription created under the empty
  identifier the code does otherwise: in \<open>stateS1\<close> that subscription is stored,
  listed and active, its rule \<^verbatim>\<open>r1\<close> is active with threshold 100, the proof
  verifies and the clear value decodes to 100, and the call reverts with
  \<open>NotFound\<close>; \<open>lastPaymentTimestamp\<close> stays 0 and nothing is logged.
\<close>

theorem executePayment_empty_id_refused:
  "createSubscription envA [] ''r1'' 30 state0 = Inr stateS1
   \<and> getAllSubscriptionIds stateS1 = [[]]
   \<and> subscriptions stateS1 [] = \<lparr>subscriptionId = [], subRuleId = ''r1'', subscriber = 30,
        lastPaymentTimestamp = 0, subIsActive = True\<rparr>
   \<and> isActive (paymentRules stateS1 ''r1'')
   \<and> publicThreshold (paymentRules stateS1 ''r1'') = 100
   \<and> checkSignatures fhe0
        [toBytes32 fhe0 (encryptedThreshold (paymentRules stateS1 ''r1''))] clear100 [7]
   \<and> abi_decode_uint32 clear100 = Some 100
   \<and> executePayment fhe0 envC [] clear100 [7] stateS1 = Inl (NotFound, stateS1)
   \<and> events (transact fhe0 (envC, ExecutePayment [] clear100 [7]) stateS1) = events stateS1"
proof -
  have made: "createSubscription envA [] ''r1'' 30 state0 = Inr stateS1"
    by (simp add: stateS1_def emptySubA_def fixture_defs)
  have sub: "subscriptions stateS1 [] = \<lparr>subscriptionId = [], subRuleId = ''r1'',
      subscriber = 30, lastPaymentTimestamp = 0, subIsActive = True\<rparr>"
    by (simp add: stateS1_def emptySubA_def fixture_defs)
  have rule: "paymentRules stateS1 ''r1'' = \<lparr>ruleId = ''r1'', encryptedThreshold = 5,
      publicThreshold = 100, recipient = 20, description = ''rent'', creator = 10,
      timestamp = 1000, isActive = True\<rparr>"
    by (simp add: stateS1_def emptySubA_def fixture_defs)
  have listed: "getAllSubscriptionIds stateS1 = [[]]"
    by (simp add: getAllSubscriptionIds_def stateS1_def emptySubA_def fixture_defs)
  have chk: "checkSignatures fhe0 cts clear [7]" for cts clear
    by (simp add: fhe0_def)
  have refused: "executePayment fhe0 envC [] clear100 [7] stateS1 = Inl (NotFound, stateS1)"
    by (simp add: executePayment_def sub)
  from made sub rule listed chk refused decode_clear100 show ?thesis
    by (simp add: transact_def)
qed

subsection \<open>Liveness gating of payments\<close>

text \<open>
  For every storage, \<open>executePayment\<close> fails \<open>NotFound\<close> when the record stored under
  the subscription identifier carries the empty identifier, fails \<open>InactiveEntity\<close>
  when it carries a non-empty one and the subscription is not active, and fails
  \<open>InactiveEntity\<close> when it carries a non-empty one and the subscription's rule is not
  active. When the creator disables the rule of such a subscription, the subscription
  is still active afterwards and an \<open>executePayment\<close> for it then fails
  \<open>InactiveEntity\<close>.
\<close>

lemma executePayment_liveness:
  "(\<not> 0 < length (subscriptionId (subscriptions s sid)) \<longrightarrow>
      executePayment fhe e sid clear prf s = Inl (NotFound, s))
   \<and> (0 < length (subscriptionId (subscriptions s sid)) \<and> \<not> subIsActive (subscriptions s sid) \<longrightarrow>
      executePayment fhe e sid clear prf s = Inl (InactiveEntity, s))
   \<and> (0 < length (subscriptionId (subscriptions s sid))
        \<and> \<not> isActive (paymentRules s (subRuleId (subscriptions s sid))) \<longrightarrow>
      executePayment fhe e sid clear prf s = Inl (InactiveEntity, s))
   \<and> (0 < length (subscriptionId (subscriptions s sid)) \<and> subIsActive (subscriptions s sid)
        \<and> 0 < length (ruleId (paymentRules s (subRuleId (subscriptions s sid))))
        \<and> msg_sender e' = creator (paymentRules s (subRuleId (subscriptions s sid))) \<longrightarrow>
      (\<exists>s'. disableRule e' (subRuleId (subscriptions s sid)) s = Inr s'
         \<and> subIsActive (subscriptions s' sid)
         \<and> executePayment fhe e sid clear prf s' = Inl (InactiveEntity, s')))"
  by (simp add: executePayment_def disableRule_def Let_def)

lemma executePayment_liveness_witness:
  "executePayment fhe0 envC ''s2'' clear100 [7] state1 = Inl (NotFound, state1)
   \<and> executePayment fhe0 envC ''s1'' clear100 [7] state1Off = Inl (InactiveEntity, state1Off)
   \<and> (\<exists>s'. disableRule envA ''r1'' state1 = Inr s'
         \<and> subIsActive (subscriptions s' ''s1'')
         \<and> executePayment fhe0 envC ''s1'' clear100 [7] s' = Inl (InactiveEntity, s'))"
proof -
  have sub: "subscriptions state1 ''s1'' = \<lparr>subscriptionId = ''s1'', subRuleId = ''r1'',
      subscriber = 11, lastPaymentTimestamp = 0, subIsActive = True\<rparr>"
    by (simp add: fixture_defs)
  have nosub: "subscriptionId (subscriptions state1 ''s2'') = []"
    by (simp add: fixture_defs)
  have rule: "paymentRules state1 ''r1'' = \<lparr>ruleId = ''r1'', encryptedThreshold = 5,
      publicThreshold = 100, recipient = 20, description = ''rent'', creator = 10,
      timestamp = 1000, isActive = True\<rparr>"
    by (simp add: fixture_defs)
  have off: "subscriptions state1Off ''s1'' = \<lparr>subscriptionId = ''s1'', subRuleId = ''r1'',
      subscriber = 11, lastPaymentTimestamp = 0, subIsActive = False\<rparr>"
    by (simp add: state1Off_def disableSubscription_def fixture_defs)
  have snd: "msg_sender envA = 10"
    by (simp add: envA_def)
  from executePayment_liveness [of state1 "''s2''" fhe0 envC clear100 "[7]" envA]
       executePayment_liveness [of state1Off "''s1''" fhe0 envC clear100 "[7]" envA]
       executePayment_liveness [of state1 "''s1''" fhe0 envC clear100 "[7]" envA]
  show ?thesis
    by (simp add: sub nosub rule off snd)
qed

text \<open>
  Claim C2 says that \<open>executePayment\<close> fails \<open>InactiveEntity\<close> when the subscription's
  rule is not active, in particular after \<open>disableRule\<close> on a rule with an existing
  active subscription. For the subscription created under the empty identifier the
  code does otherwise: from \<open>stateS1\<close> the creator disables \<^verbatim>\<open>r1\<close>; the
  subscription stored under the empty identifier is still active and its rule is not,
  and \<open>executePayment\<close> for it fails \<open>NotFound\<close>, not \<open>InactiveEntity\<close>.
\<close>

theorem executePayment_empty_id_rule_disabled:
  "disableRule envA ''r1'' stateS1 = Inr stateS1RuleOff
   \<and> getAllSubscriptionIds stateS1RuleOff = [[]]
   \<and> subscriptions stateS1RuleOff [] = \<lparr>subscriptionId = [], subRuleId = ''r1'',
        subscriber = 30, lastPaymentTimestamp = 0, subIsActive = True\<rparr>
   \<and> \<not> isActive (paymentRules stateS1RuleOff ''r1'')
   \<and> executePayment fhe0 envC [] clear100 [7] stateS1RuleOff
       = Inl (NotFound, stateS1RuleOff)"
proof -
  have off: "disableRule envA ''r1'' stateS1 = Inr stateS1RuleOff"
    by (simp add: stateS1RuleOff_def stateS1_def emptySubA_def fixture_defs)
  have sub: "subscriptions stateS1RuleOff [] = \<lparr>subscriptionId = [], subRuleId = ''r1'',
      subscriber = 30, lastPaymentTimestamp = 0, subIsActive = True\<rparr>"
    by (simp add: stateS1RuleOff_def stateS1_def emptySubA_def fixture_defs)
  have rule: "\<not> isActive (paymentRules stateS1RuleOff ''r1'')"
    by (simp add: stateS1RuleOff_def stateS1_def emptySubA_def fixture_defs)
  have listed: "getAllSubscriptionIds stateS1RuleOff = [[]]"
    by (simp add: getAllSubscriptionIds_def stateS1RuleOff_def stateS1_def emptySubA_def
          fixture_defs)
  have refused: "executePayment fhe0 envC [] clear100 [7] stateS1RuleOff
      = Inl (NotFound, stateS1RuleOff)"
    by (simp add: executePayment_def sub)
  from off sub rule listed refused show ?thesis
    by simp
qed

subsection \<open>A failing call changes nothing\<close>

text \<open>
  Claim C3. Every failing invocation of a state-changing function
  (\<open>createPaymentRule\<close>, \<open>createSubscription\<close>, \<open>executePayment\<close>, \<open>disableRule\<close>,
  \<open>disableSubscription\<close>) leaves the whole storage unchanged: whatever the error, the
  storage at the moment of the revert is the storage of before the call (no write and no
  event precedes a failing check), and the storage after the transaction is that one
  too. This covers \<open>executePayment\<close> failing with \<open>InvalidProof\<close>.
\<close>

theorem failure_leaves_state:
  "dispatch fhe e c s = Inl (err, s') \<Longrightarrow> s' = s \<and> transact fhe (e, c) s = s"
  by (cases c)
    (auto simp: transact_def createPaymentRule_def createSubscription_def executePayment_def
       disableRule_def disableSubscription_def Let_def
       split: if_splits option.splits)

theorem failure_leaves_state_witness:
  "dispatch fhe0 envC (ExecutePayment ''s1'' clear100 [8]) state1 = Inl (InvalidProof, state1)
   \<and> transact fhe0 (envC, ExecutePayment ''s1'' clear100 [8]) state1 = state1"
proof -
  have sub: "subscriptions state1 ''s1'' = \<lparr>subscriptionId = ''s1'', subRuleId = ''r1'',
      subscriber = 11, lastPaymentTimestamp = 0, subIsActive = True\<rparr>"
    by (simp add: fixture_defs)
  have rule: "paymentRules state1 ''r1'' = \<lparr>ruleId = ''r1'', encryptedThreshold = 5,
      publicThreshold = 100, recipient = 20, description = ''rent'', creator = 10,
      timestamp = 1000, isActive = True\<rparr>"
    by (simp add: fixture_defs)
  have chk: "\<not> checkSignatures fhe0 cts clear [8]" for cts clear
    by (simp add: fhe0_def)
  have run: "dispatch fhe0 envC (ExecutePayment ''s1'' clear100 [8]) state1
      = Inl (InvalidProof, state1)"
    by (simp add: executePayment_def sub rule chk)
  from failure_leaves_state [OF run] run show ?thesis
    by simp
qed

subsection \<open>Who may disable\<close>

text \<open>
  For every rule whose stored identifier is not empty, \<open>disableRule\<close> called by an
  account other than the stored creator fails \<open>Unauthorized\<close> and the rule's
  \<open>isActive\<close> is what it was; called by the stored creator it succeeds and \<open>isActive\<close>
  is false afterwards. The same holds for every subscription whose stored identifier
  is not empty, \<open>disableSubscription\<close> and the stored subscriber.
\<close>

lemma disable_authorization:
  "(0 < length (ruleId (paymentRules s rid)) \<longrightarrow>
      (msg_sender e \<noteq> creator (paymentRules s rid) \<longrightarrow>
         disableRule e rid s = Inl (Unauthorized, s)
         \<and> isActive (paymentRules (transact fhe (e, DisableRule rid) s) rid)
             = isActive (paymentRules s rid))
      \<and> (msg_sender e = creator (paymentRules s rid) \<longrightarrow>
         (\<exists>s'. disableRule e rid s = Inr s' \<and> \<not> isActive (paymentRules s' rid))))
   \<and> (0 < length (subscriptionId (subscriptions s sid)) \<longrightarrow>
      (msg_sender e \<noteq> subscriber (subscriptions s sid) \<longrightarrow>
         disableSubscription e sid s = Inl (Unauthorized, s)
         \<and> subIsActive (subscriptions (transact fhe (e, DisableSubscription sid) s) sid)
             = subIsActive (subscriptions s sid))
      \<and> (msg_sender e = subscriber (subscriptions s sid) \<longrightarrow>
         (\<exists>s'. disableSubscription e sid s = Inr s' \<and> \<not> subIsActive (subscriptions s' sid))))"
  by (simp add: disableRule_def disableSubscription_def transact_def)

lemma disable_authorization_witness:
  "disableRule envB ''r1'' state1 = Inl (Unauthorized, state1)
   \<and> isActive (paymentRules (transact fhe0 (envB, DisableRule ''r1'') state1) ''r1'')
   \<and> (\<exists>s'. disableRule envA ''r1'' state1 = Inr s' \<and> \<not> isActive (paymentRules s' ''r1''))
   \<and> disableSubscription envA ''s1'' state1 = Inl (Unauthorized, state1)
   \<and> subIsActive (subscriptions (transact fhe0 (envA, DisableSubscription ''s1'') state1) ''s1'')
   \<and> (\<exists>s'. disableSubscription envB ''s1'' state1 = Inr s'
         \<and> \<not> subIsActive (subscriptions s' ''s1''))"
proof -
  have sub: "subscriptions state1 ''s1'' = \<lparr>subscriptionId = ''s1'', subRuleId = ''r1'',
      subscriber = 11, lastPaymentTimestamp = 0, subIsActive = True\<rparr>"
    by (simp add: fixture_defs)
  have rule: "paymentRules state1 ''r1'' = \<lparr>ruleId = ''r1'', encryptedThreshold = 5,
      publicThreshold = 100, recipient = 20, description = ''rent'', creator = 10,
      timestamp = 1000, isActive = True\<rparr>"
    by (simp add: fixture_defs)
  have callers: "msg_sender envA = 10" "msg_sender envB = 11"
    by (simp_all add: envA_def envB_def)
  from disable_authorization [of state1 "''r1''" envB fhe0 "''s1''"]
       disable_authorization [of state1 "''r1''" envA fhe0 "''s1''"]
  show ?thesis
    by (simp add: sub rule callers)
qed

text \<open>
  Claim C5 says that for every existing rule \<open>disableRule\<close> by another account than the
  stored creator fails \<open>Unauthorized\<close>, that the stored creator's call succeeds and
  sets \<open>isActive\<close> to false, and the same for subscriptions and their subscriber. For
  the records created under the empty identifier the code does otherwise: the rule of
  \<open>stateE1\<close> is stored, listed and active with creator 10, and \<open>disableRule\<close> fails
  \<open>NotFound\<close> for caller 10 and for caller 11 alike; the subscription of \<open>stateS1\<close>
  is stored, listed and active with subscriber 30, and \<open>disableSubscription\<close> fails
  \<open>NotFound\<close> for caller 30 and for caller 11 alike.
\<close>

theorem disable_empty_id_refused:
  "getAllRuleIds stateE1 = [[]]
   \<and> creator (paymentRules stateE1 []) = 10 \<and> isActive (paymentRules stateE1 [])
   \<and> msg_sender envA = 10 \<and> msg_sender envB = 11 \<and> msg_sender envD = 30
   \<and> disableRule envA [] stateE1 = Inl (NotFound, stateE1)
   \<and> disableRule envB [] stateE1 = Inl (NotFound, stateE1)
   \<and> getAllSubscriptionIds stateS1 = [[]]
   \<and> subscriber (subscriptions stateS1 []) = 30 \<and> subIsActive (subscriptions stateS1 [])
   \<and> disableSubscription envD [] stateS1 = Inl (NotFound, stateS1)
   \<and> disableSubscription envB [] stateS1 = Inl (NotFound, stateS1)"
proof -
  have rule: "paymentRules stateE1 [] = \<lparr>ruleId = [], encryptedThreshold = 5,
      publicThreshold = 100, recipient = 20, description = ''first'', creator = 10,
      timestamp = 1000, isActive = True\<rparr>"
    by (simp add: stateE1_def emptyRuleA_def fixture_defs)
  have sub: "subscriptions stateS1 [] = \<lparr>subscriptionId = [], subRuleId = ''r1'',
      subscriber = 30, lastPaymentTimestamp = 0, subIsActive = True\<rparr>"
    by (simp add: stateS1_def emptySubA_def fixture_defs)
  have listed: "getAllRuleIds stateE1 = [[]]" "getAllSubscriptionIds stateS1 = [[]]"
    by (simp_all add: getAllRuleIds_def getAllSubscriptionIds_def stateE1_def stateS1_def
          emptyRuleA_def emptySubA_def fixture_defs)
  have callers: "msg_sender envA = 10" "msg_sender envB = 11" "msg_sender envD = 30"
    by (simp_all add: envA_def envB_def envD_def)
  have refused: "disableRule e [] stateE1 = Inl (NotFound, stateE1)"
    "disableSubscription e [] stateS1 = Inl (NotFound, stateS1)" for e
    by (simp_all add: disableRule_def disableSubscription_def rule sub)
  from rule sub listed callers refused show ?thesis
    by simp
qed

subsection \<open>No minimum interval between payments\<close>

text \<open>
  Claim C9. \<open>executePayment\<close> enforces no minimum interval: after one successful
  \<open>executePayment\<close> for a subscription, a second one for the same subscription, with a
  proof that verifies and a decoded value that meets the threshold, succeeds as well,
  whatever the environment \<open>e2\<close> of the second call, hence whatever its block timestamp is
  compared with the \<open>lastPaymentTimestamp\<close> the first call recorded.
\<close>

theorem executePayment_repeatable:
  assumes "executePayment fhe e1 sid clear1 prf1 s = Inr s1"
    and "rule = paymentRules s1 (subRuleId (subscriptions s1 sid))"
    and "checkSignatures fhe [toBytes32 fhe (encryptedThreshold rule)] clear2 prf2"
    and "abi_decode_uint32 clear2 = Some v2"
    and "unat (publicThreshold rule) \<le> unat v2"
  shows "lastPaymentTimestamp (subscriptions s1 sid) = block_timestamp e1
       \<and> (\<exists>s2. executePayment fhe e2 sid clear2 prf2 s1 = Inr s2
             \<and> lastPaymentTimestamp (subscriptions s2 sid) = block_timestamp e2)"
  using assms
  by (auto simp: executePayment_def Let_def emit_def ucast_le_iff
        split: if_splits option.splits)

theorem executePayment_repeatable_witness:
  "\<exists>s1. executePayment fhe0 envC ''s1'' clear100 [7] state1 = Inr s1
     \<and> lastPaymentTimestamp (subscriptions s1 ''s1'') = 3000
     \<and> (\<exists>s2. executePayment fhe0 envC ''s1'' clear100 [7] s1 = Inr s2
           \<and> lastPaymentTimestamp (subscriptions s2 ''s1'') = 3000)"
proof -
  have sub: "subscriptions state1 ''s1'' = \<lparr>subscriptionId = ''s1'', subRuleId = ''r1'',
      subscriber = 11, lastPaymentTimestamp = 0, subIsActive = True\<rparr>"
    by (simp add: fixture_defs)
  have rule: "paymentRules state1 ''r1'' = \<lparr>ruleId = ''r1'', encryptedThreshold = 5,
      publicThreshold = 100, recipient = 20, description = ''rent'', creator = 10,
      timestamp = 1000, isActive = True\<rparr>"
    by (simp add: fixture_defs)
  have chk: "checkSignatures fhe0 cts clear [7]" for cts clear
    by (simp add: fhe0_def)
  have ts: "block_timestamp envC = 3000"
    by (simp add: envC_def)
  obtain s1 where first: "executePayment fhe0 envC ''s1'' clear100 [7] state1 = Inr s1"
    by (simp add: executePayment_def Let_def sub rule chk decode_clear100)
  then have rule1: "paymentRules s1 (subRuleId (subscriptions s1 ''s1'')) = paymentRules state1 ''r1''"
    by (auto simp: executePayment_def Let_def sub rule chk decode_clear100 emit_def)
  from executePayment_repeatable
         [OF first refl, of clear100 "[7]" 100 envC] first
  show ?thesis
    by (simp add: rule1 rule chk ts decode_clear100)
qed

subsection \<open>Creating a subscription does not look at the caller\<close>

text \<open>
  Claim C10. \<open>createSubscription\<close> performs no caller authorization: for every storage
  and arguments its result, error or new storage, is the same under any two transaction
  environments, hence for any two callers; and when it succeeds the stored subscriber
  is the \<open>subscriber\<close> argument.
\<close>

theorem createSubscription_ignores_caller:
  "createSubscription e1 sid rid sub s = createSubscription e2 sid rid sub s
   \<and> (\<forall>s'. createSubscription e1 sid rid sub s = Inr s' \<longrightarrow>
         subscriber (subscriptions s' sid) = sub)"
  by (auto simp: createSubscription_def Let_def emit_def split: if_splits)

theorem createSubscription_ignores_caller_witness:
  "createSubscription envA ''s1'' ''r1'' 11 state0 = createSubscription envC ''s1'' ''r1'' 11 state0
   \<and> msg_sender envA \<noteq> msg_sender envC \<and> msg_sender envA \<noteq> 11
   \<and> createSubscription envA ''s1'' ''r1'' 11 state0 = Inr state1
   \<and> subscriber (subscriptions state1 ''s1'') = 11"
proof -
  have made: "createSubscription envA ''s1'' ''r1'' 11 state0 = Inr state1"
    by (simp add: fixture_defs)
  from createSubscription_ignores_caller [of envA "''s1''" "''r1''" 11 state0 envC] made
  show ?thesis
    by (simp add: envA_def envC_def)
qed

subsection \<open>A subscription needs an existing, active rule\<close>

text \<open>
  Claim C7, as stated, says that \<open>createSubscription\<close> referencing a rule that does not
  exist fails \<open>NotFound\<close> in every storage. The contract tests the subscription
  identifier first: in \<open>state1\<close>, where \<^verbatim>\<open>s1\<close> is taken and no rule
  \<^verbatim>\<open>r9\<close> exists, the call fails \<open>DuplicateId\<close>.
\<close>

theorem createSubscription_missing_rule_counterexample:
  "length (ruleId (paymentRules state1 ''r9'')) = 0
   \<and> createSubscription envC ''s1'' ''r9'' 12 state1 = Inl (DuplicateId, state1)
   \<and> createSubscription envC ''s1'' ''r9'' 12 state1 \<noteq> Inl (NotFound, state1)"
proof -
  have sub: "subscriptionId (subscriptions state1 ''s1'') = ''s1''"
    by (simp add: fixture_defs)
  have norule: "ruleId (paymentRules state1 ''r9'') = []"
    by (simp add: fixture_defs)
  show ?thesis
    by (simp add: createSubscription_def sub norule)
qed

text \<open>
  Claim C7, amended. In every storage reached from the empty one, \<open>createSubscription\<close>
  with a subscription identifier that is not a non-empty identifier already created
  (it was never created, or it is the empty string) fails \<open>NotFound\<close> when no rule has
  been created under \<open>ruleId\<close>, and \<open>InactiveEntity\<close> when a rule has been created
  under it and its \<open>isActive\<close> is false; with a non-empty subscription identifier
  already created it fails \<open>DuplicateId\<close> instead, whatever the rule. In all these
  cases the storage is unchanged: no subscription record is created, the enumeration
  list and the index of the rule's subscriptions are what they were. In terms of the
  stored records the same holds of every storage whatever: \<open>DuplicateId\<close> when the
  record under the subscription identifier carries a non-empty identifier; otherwise
  \<open>NotFound\<close> when the record under \<open>ruleId\<close> carries the empty identifier, and
  \<open>InactiveEntity\<close> when it carries a non-empty one and is not active.
\<close>

theorem createSubscription_referential:
  "(length (subscriptionId (subscriptions s sid)) \<noteq> 0 \<longrightarrow>
      createSubscription e sid rid sub s = Inl (DuplicateId, s)
      \<and> transact fhe (e, CreateSubscription sid rid sub) s = s)
   \<and> (length (subscriptionId (subscriptions s sid)) = 0
        \<and> \<not> 0 < length (ruleId (paymentRules s rid)) \<longrightarrow>
      createSubscription e sid rid sub s = Inl (NotFound, s)
      \<and> transact fhe (e, CreateSubscription sid rid sub) s = s)
   \<and> (length (subscriptionId (subscriptions s sid)) = 0
        \<and> 0 < length (ruleId (paymentRules s rid)) \<and> \<not> isActive (paymentRules s rid) \<longrightarrow>
      createSubscription e sid rid sub s = Inl (InactiveEntity, s)
      \<and> transact fhe (e, CreateSubscription sid rid sub) s = s)
   \<and> (sid \<in> set (subscriptionIds (run fhe txs initial)) \<and> sid \<noteq> [] \<longrightarrow>
      createSubscription e sid rid sub (run fhe txs initial)
        = Inl (DuplicateId, run fhe txs initial)
      \<and> transact fhe (e, CreateSubscription sid rid sub) (run fhe txs initial)
        = run fhe txs initial)
   \<and> ((sid \<notin> set (subscriptionIds (run fhe txs initial)) \<or> sid = [])
        \<and> rid \<notin> set (ruleIds (run fhe txs initial)) \<longrightarrow>
      createSubscription e sid rid sub (run fhe txs initial)
        = Inl (NotFound, run fhe txs initial)
      \<and> transact fhe (e, CreateSubscription sid rid sub) (run fhe txs initial)
        = run fhe txs initial)
   \<and> ((sid \<notin> set (subscriptionIds (run fhe txs initial)) \<or> sid = [])
        \<and> rid \<in> set (ruleIds (run fhe txs initial))
        \<and> \<not> isActive (paymentRules (run fhe txs initial) rid) \<longrightarrow>
      createSubscription e sid rid sub (run fhe txs initial)
        = Inl (InactiveEntity, run fhe txs initial)
      \<and> transact fhe (e, CreateSubscription sid rid sub) (run fhe txs initial)
        = run fhe txs initial)"
proof -
  let ?r = "run fhe txs initial"
  have stored: "length (subscriptionId (subscriptions ?r sid)) \<noteq> 0
      \<longleftrightarrow> sid \<in> set (subscriptionIds ?r) \<and> sid \<noteq> []"
    using reached_subscription_exists [of fhe txs sid] by simp
  have rule: "0 < length (ruleId (paymentRules ?r rid))
      \<longleftrightarrow> rid \<in> set (ruleIds ?r) \<and> rid \<noteq> []"
    by (rule reached_rule_exists)
  have named: "rid \<in> set (ruleIds ?r) \<Longrightarrow> \<not> isActive (paymentRules ?r rid) \<Longrightarrow> rid \<noteq> []"
    by (rule reached_inactive_rule_named)
  have any: "length (subscriptionId (subscriptions t sid)) \<noteq> 0 \<longrightarrow>
      createSubscription e sid rid sub t = Inl (DuplicateId, t)
      \<and> transact fhe (e, CreateSubscription sid rid sub) t = t"
    "length (subscriptionId (subscriptions t sid)) = 0
        \<and> \<not> 0 < length (ruleId (paymentRules t rid)) \<longrightarrow>
      createSubscription e sid rid sub t = Inl (NotFound, t)
      \<and> transact fhe (e, CreateSubscription sid rid sub) t = t"
    "length (subscriptionId (subscriptions t sid)) = 0
        \<and> 0 < length (ruleId (paymentRules t rid)) \<and> \<not> isActive (paymentRules t rid) \<longrightarrow>
      createSubscription e sid rid sub t = Inl (InactiveEntity, t)
      \<and> transact fhe (e, CreateSubscription sid rid sub) t = t" for t
    by (simp_all add: createSubscription_def transact_def)
  have dup: "sid \<in> set (subscriptionIds ?r) \<and> sid \<noteq> [] \<longrightarrow>
      createSubscription e sid rid sub ?r = Inl (DuplicateId, ?r)
      \<and> transact fhe (e, CreateSubscription sid rid sub) ?r = ?r"
    using any(1) [of ?r] stored by blast
  have missing: "(sid \<notin> set (subscriptionIds ?r) \<or> sid = []) \<and> rid \<notin> set (ruleIds ?r) \<longrightarrow>
      createSubscription e sid rid sub ?r = Inl (NotFound, ?r)
      \<and> transact fhe (e, CreateSubscription sid rid sub) ?r = ?r"
    using any(2) [of ?r] stored rule by blast
  have inactive: "(sid \<notin> set (subscriptionIds ?r) \<or> sid = []) \<and> rid \<in> set (ruleIds ?r)
        \<and> \<not> isActive (paymentRules ?r rid) \<longrightarrow>
      createSubscription e sid rid sub ?r = Inl (InactiveEntity, ?r)
      \<and> transact fhe (e, CreateSubscription sid rid sub) ?r = ?r"
    using any(3) [of ?r] stored rule named by blast
  from any [of s] dup missing inactive show ?thesis
    by blast
qed

theorem createSubscription_referential_witness:
  "createSubscription envC ''s1'' ''r1'' 12 state1 = Inl (DuplicateId, state1)
   \<and> createSubscription envC ''s2'' ''r9'' 12 state1 = Inl (NotFound, state1)
   \<and> transact fhe0 (envC, CreateSubscription ''s2'' ''r9'' 12) state1 = state1
   \<and> createSubscription envC ''s2'' ''r1'' 12 state1RuleOff = Inl (InactiveEntity, state1RuleOff)
   \<and> transact fhe0 (envC, CreateSubscription ''s2'' ''r1'' 12) state1RuleOff = state1RuleOff
   \<and> [] \<in> set (subscriptionIds stateS1)
   \<and> createSubscription envC [] ''r9'' 12 stateS1 = Inl (NotFound, stateS1)"
proof -
  have sub: "subscriptionId (subscriptions state1 ''s1'') = ''s1''"
    by (simp add: fixture_defs)
  have nosub: "subscriptionId (subscriptions state1 ''s2'') = []"
    "subscriptionId (subscriptions state1RuleOff ''s2'') = []"
    by (simp_all add: state1RuleOff_def fixture_defs)
  have norule: "ruleId (paymentRules state1 ''r9'') = []"
    by (simp add: fixture_defs)
  have off: "ruleId (paymentRules state1RuleOff ''r1'') = ''r1''"
    "\<not> isActive (paymentRules state1RuleOff ''r1'')"
    by (simp_all add: state1RuleOff_def fixture_defs)
  have reached: "stateS1 = run fhe0
      [(envA, CreatePaymentRule ''r1'' 5 [1] 100 20 ''rent''), emptySubA] initial"
    by (simp add: stateS1_def state0_def run_def)
  have lists: "subscriptionIds stateS1 = [[]]" "ruleIds stateS1 = [''r1'']"
    by (simp_all add: stateS1_def emptySubA_def fixture_defs)
  from createSubscription_referential [of state1 "''s1''" envC "''r1''" 12 fhe0 "[]"]
       createSubscription_referential [of state1 "''s2''" envC "''r9''" 12 fhe0 "[]"]
       createSubscription_referential [of state1RuleOff "''s2''" envC "''r1''" 12 fhe0 "[]"]
       createSubscription_referential [of state1 "[]" envC "''r9''" 12 fhe0
         "[(envA, CreatePaymentRule ''r1'' 5 [1] 100 20 ''rent''), emptySubA]",
         folded reached]
  show ?thesis
    by (simp add: sub nosub norule off lists)
qed

subsection \<open>The empty identifier\<close>

text \<open>
  The contract takes a rule, or a subscription, to exist when the identifier stored
  in its record has non-zero length. A creation under the empty identifier therefore
  stores a record that every later existence test takes for absent. The general facts
  first: for an identifier that is not empty, a second creation is refused and the
  first record stays.
\<close>

lemma createPaymentRule_stores:
  "createPaymentRule fhe e rid enc prf thr recip descr s = Inr s1 \<Longrightarrow>
     ruleId (paymentRules s1 rid) = rid \<and> creator (paymentRules s1 rid) = msg_sender e
     \<and> isActive (paymentRules s1 rid) \<and> ruleIds s1 = ruleIds s @ [rid]"
  by (auto simp: createPaymentRule_def Let_def emit_def allowThis_def
        makePubliclyDecryptable_def split: if_splits option.splits)

lemma createPaymentRule_second_refused:
  assumes "rid \<noteq> []"
    and "createPaymentRule fhe e rid enc prf thr recip descr s = Inr s1"
  shows "createPaymentRule fhe e' rid enc' prf' thr' recip' descr' s1 = Inl (DuplicateId, s1)"
  using createPaymentRule_stores [OF assms(2)] assms(1)
  by (simp add: createPaymentRule_def)

lemma createSubscription_stores:
  "createSubscription e sid rid sub s = Inr s1 \<Longrightarrow>
     subscriptionId (subscriptions s1 sid) = sid \<and> subRuleId (subscriptions s1 sid) = rid
     \<and> subscriber (subscriptions s1 sid) = sub \<and> subIsActive (subscriptions s1 sid)
     \<and> subscriptionIds s1 = subscriptionIds s @ [sid]"
  by (auto simp: createSubscription_def Let_def emit_def split: if_splits)

lemma createSubscription_second_refused:
  assumes "sid \<noteq> []"
    and "createSubscription e sid rid sub s = Inr s1"
  shows "createSubscription e' sid rid' sub' s1 = Inl (DuplicateId, s1)"
  using createSubscription_stores [OF assms(2)] assms(1)
  by (simp add: createSubscription_def)

text \<open>
  Claim C4 says that for all identifiers a second \<open>createPaymentRule\<close> with the
  identifier of a successful first one fails \<open>DuplicateId\<close> and leaves the stored rule
  unchanged, and the same for \<open>createSubscription\<close>. On the empty identifier the code
  does otherwise: both creations of a rule succeed, and the second replaces the
  record of the first (creator 10, threshold 100, recipient 20) by its own (creator 11,
  threshold 50, recipient 21); both creations of a subscription succeed, and the
  stored subscriber changes from 30 to 31.
\<close>

theorem create_twice_empty_id:
  "createPaymentRule fhe0 envA [] 5 [1] 100 20 ''first'' initial = Inr stateE1
   \<and> createPaymentRule fhe0 envB [] 6 [1] 50 21 ''second'' stateE1 = Inr stateE2
   \<and> paymentRules stateE1 [] = \<lparr>ruleId = [], encryptedThreshold = 5, publicThreshold = 100,
        recipient = 20, description = ''first'', creator = 10, timestamp = 1000,
        isActive = True\<rparr>
   \<and> paymentRules stateE2 [] = \<lparr>ruleId = [], encryptedThreshold = 6, publicThreshold = 50,
        recipient = 21, description = ''second'', creator = 11, timestamp = 2000,
        isActive = True\<rparr>
   \<and> createSubscription envA [] ''r1'' 30 state0 = Inr stateS1
   \<and> createSubscription envB [] ''r1'' 31 stateS1 = Inr stateS2
   \<and> subscriber (subscriptions stateS1 []) = 30
   \<and> subscriber (subscriptions stateS2 []) = 31"
  by (simp add: stateE1_def stateE2_def stateS1_def stateS2_def emptyRuleA_def
        emptyRuleB_def emptySubA_def emptySubB_def fixture_defs)

text \<open>
  An existing rule (stored identifier not empty) is never replaced: no transaction
  changes its identifier or its creator, and none makes it active again. The same for
  the identifier and the subscriber of an existing subscription. Nothing is deleted.
\<close>

lemma transact_keeps_rule:
  assumes "0 < length (ruleId (paymentRules s rid))"
  shows "ruleId (paymentRules (transact fhe tx s) rid) = ruleId (paymentRules s rid)
       \<and> creator (paymentRules (transact fhe tx s) rid) = creator (paymentRules s rid)
       \<and> (\<not> isActive (paymentRules s rid) \<longrightarrow>
            \<not> isActive (paymentRules (transact fhe tx s) rid))"
proof (cases tx)
  case (Pair e c)
  show ?thesis
  proof (cases c)
    case (CreatePaymentRule rid' enc pf thr recip descr)
    with Pair assms show ?thesis
      by (auto simp: transact_def createPaymentRule_def Let_def emit_def allowThis_def
            makePubliclyDecryptable_def split: option.splits)
  next
    case (CreateSubscription sid rid' sub)
    with Pair show ?thesis
      by (simp add: transact_def createSubscription_def Let_def emit_def)
  next
    case (ExecutePayment sid clear pf)
    with Pair show ?thesis
      by (simp add: transact_def executePayment_def Let_def emit_def split: option.splits)
  next
    case (DisableRule rid')
    with Pair show ?thesis
      by (simp add: transact_def disableRule_def)
  next
    case (DisableSubscription sid)
    with Pair show ?thesis
      by (simp add: transact_def disableSubscription_def)
  qed
qed

lemma run_keeps_rule:
  "0 < length (ruleId (paymentRules s rid)) \<Longrightarrow>
     ruleId (paymentRules (run fhe txs s) rid) = ruleId (paymentRules s rid)
     \<and> creator (paymentRules (run fhe txs s) rid) = creator (paymentRules s rid)
     \<and> (\<not> isActive (paymentRules s rid) \<longrightarrow> \<not> isActive (paymentRules (run fhe txs s) rid))"
proof (induction txs arbitrary: s)
  case Nil
  then show ?case by (simp add: run_def)
next
  case (Cons tx txs)
  have step: "run fhe (tx # txs) s = run fhe txs (transact fhe tx s)"
    by (simp add: run_def)
  from Cons.prems transact_keeps_rule [OF Cons.prems, of fhe tx]
  have "0 < length (ruleId (paymentRules (transact fhe tx s) rid))"
    by simp
  from Cons.IH [OF this] transact_keeps_rule [OF Cons.prems, of fhe tx] show ?case
    by (simp add: step)
qed

lemma transact_keeps_subscription:
  assumes "0 < length (subscriptionId (subscriptions s sid))"
  shows "subscriptionId (subscriptions (transact fhe tx s) sid)
           = subscriptionId (subscriptions s sid)
       \<and> subscriber (subscriptions (transact fhe tx s) sid) = subscriber (subscriptions s sid)
       \<and> subRuleId (subscriptions (transact fhe tx s) sid) = subRuleId (subscriptions s sid)"
proof (cases tx)
  case (Pair e c)
  show ?thesis
  proof (cases c)
    case (CreatePaymentRule rid' enc pf thr recip descr)
    with Pair show ?thesis
      by (simp add: transact_def createPaymentRule_def Let_def emit_def allowThis_def
            makePubliclyDecryptable_def split: option.splits)
  next
    case (CreateSubscription sid' rid' sub)
    with Pair assms show ?thesis
      by (auto simp: transact_def createSubscription_def Let_def emit_def)
  next
    case (ExecutePayment sid' clear pf)
    with Pair show ?thesis
      by (simp add: transact_def executePayment_def Let_def emit_def split: option.splits)
  next
    case (DisableRule rid')
    with Pair show ?thesis
      by (simp add: transact_def disableRule_def)
  next
    case (DisableSubscription sid')
    with Pair show ?thesis
      by (simp add: transact_def disableSubscription_def)
  qed
qed

text \<open>
  Claim C6 says that along every sequence of operations from the empty storage a rule,
  once created, is never replaced and its creator never changes. On the empty
  identifier the code does otherwise: after the first transaction the rule stored
  under it has creator 10, after the second one creator 11 and another recipient; the
  enumeration list then holds the empty identifier twice and the log two creation
  events for it.
\<close>

theorem rule_replaced_empty_id:
  "creator (paymentRules (run fhe0 [emptyRuleA] initial) []) = 10
   \<and> recipient (paymentRules (run fhe0 [emptyRuleA] initial) []) = 20
   \<and> creator (paymentRules (run fhe0 [emptyRuleA, emptyRuleB] initial) []) = 11
   \<and> recipient (paymentRules (run fhe0 [emptyRuleA, emptyRuleB] initial) []) = 21
   \<and> ruleIds (run fhe0 [emptyRuleA, emptyRuleB] initial) = [[], []]
   \<and> events (run fhe0 [emptyRuleA, emptyRuleB] initial)
       = [PaymentRuleCreated [] 10, PaymentRuleCreated [] 11]"
  by (simp add: emptyRuleA_def emptyRuleB_def fixture_defs)

text \<open>
  Every identifier in the enumeration list of a storage reached from \<open>initial\<close> is the
  identifier stored in the record under it; so \<open>getPaymentRule\<close> returns that record
  for every listed identifier that is not empty. Only \<open>createPaymentRule\<close> extends the
  list, at its end.
\<close>

lemma transact_listed_rules:
  assumes "\<forall>rid \<in> set (ruleIds s). ruleId (paymentRules s rid) = rid"
  shows "\<forall>rid \<in> set (ruleIds (transact fhe tx s)).
           ruleId (paymentRules (transact fhe tx s) rid) = rid"
proof (cases tx)
  case (Pair e c)
  show ?thesis
  proof (cases c)
    case (CreatePaymentRule rid' enc pf thr recip descr)
    with Pair assms show ?thesis
      by (auto simp: transact_def createPaymentRule_def Let_def emit_def allowThis_def
            makePubliclyDecryptable_def split: option.splits)
  next
    case (CreateSubscription sid rid' sub)
    with Pair assms show ?thesis
      by (simp add: transact_def createSubscription_def Let_def emit_def)
  next
    case (ExecutePayment sid clear pf)
    with Pair assms show ?thesis
      by (simp add: transact_def executePayment_def Let_def emit_def split: option.splits)
  next
    case (DisableRule rid')
    with Pair assms show ?thesis
      by (simp add: transact_def disableRule_def)
  next
    case (DisableSubscription sid)
    with Pair assms show ?thesis
      by (simp add: transact_def disableSubscription_def)
  qed
qed

lemma run_listed_rules:
  "\<forall>rid \<in> set (ruleIds s). ruleId (paymentRules s rid) = rid \<Longrightarrow>
     \<forall>rid \<in> set (ruleIds (run fhe txs s)). ruleId (paymentRules (run fhe txs s) rid) = rid"
proof (induction txs arbitrary: s)
  case Nil
  then show ?case by (simp add: run_def)
next
  case (Cons tx txs)
  have step: "run fhe (tx # txs) s = run fhe txs (transact fhe tx s)"
    by (simp add: run_def)
  from Cons.IH [OF transact_listed_rules [OF Cons.prems, of fhe tx]] show ?case
    by (simp add: step)
qed

lemma listed_rule_retrievable:
  assumes "rid \<in> set (getAllRuleIds (run fhe txs initial))" and "rid \<noteq> []"
  shows "\<exists>v. getPaymentRule rid (run fhe txs initial) = Inr v"
proof -
  have "\<forall>r \<in> set (ruleIds initial). ruleId (paymentRules initial r) = r"
    by (simp add: initial_def)
  from run_listed_rules [OF this, of fhe txs] assms show ?thesis
    by (simp add: getAllRuleIds_def getPaymentRule_def Let_def)
qed

lemma createPaymentRule_appends:
  "ruleIds (transact fhe (e, CreatePaymentRule rid enc prf thr recip descr) s)
     = (if isl (createPaymentRule fhe e rid enc prf thr recip descr s) then ruleIds s
        else ruleIds s @ [rid])"
  by (auto simp: transact_def createPaymentRule_def Let_def emit_def allowThis_def
        makePubliclyDecryptable_def split: option.splits)

text \<open>
  Claim C8 says that after successful creations of rules with distinct identifiers
  every identifier that \<open>getAllRuleIds\<close> returns is retrievable with \<open>getPaymentRule\<close>.
  On the empty identifier the code does otherwise: after the successful creations of
  \<^verbatim>\<open>r1\<close> and of a rule under the empty identifier, \<open>getAllRuleIds\<close> returns both,
  \<open>getPaymentRule\<close> returns the first and fails \<open>NotFound\<close> on the second.
\<close>

theorem listed_empty_id_not_retrievable:
  "createPaymentRule fhe0 envA ''r1'' 5 [1] 100 20 ''rent'' initial = Inr state0
   \<and> createPaymentRule fhe0 envB [] 6 [1] 50 21 ''second'' state0 = Inr stateMix
   \<and> getAllRuleIds stateMix = [''r1'', []]
   \<and> getPaymentRule ''r1'' stateMix = Inr (''r1'', 100, 20, ''rent'', 10, 1000, True)
   \<and> getPaymentRule [] stateMix = Inl NotFound"
  by (simp add: stateMix_def emptyRuleB_def fixture_defs getAllRuleIds_def
        getPaymentRule_def)

end
